theory Spec2Isabelle
  imports Main "HOL-Library.Sublist"
begin

section \<open>The request builder of \<open>src/APIBuilder.ts\<close>\<close>

subsection \<open>Data\<close>

text \<open>
  The union type of the field \<open>responseType\<close>:
  \<^verbatim>\<open>'arraybuffer' | 'blob' | 'document' | 'json' | 'text' | 'stream'\<close>.
\<close>

datatype response_type = arraybuffer | blob | document | json | "text" | stream

text \<open>
  A query parameter value, \<^verbatim>\<open>string | number\<close>. The builder never computes with
  the number, so its representation stays a type parameter.
\<close>

datatype 'n param_value = StrV string | NumV 'n

text \<open>
  The fields of the class \<open>APIRequestBuilder\<close>, with the names of the source. The type
  \<^verbatim>\<open>any\<close> of \<open>data\<close> is \<open>'d option\<close>, where \<open>None\<close> is \<^verbatim>\<open>undefined\<close>; the optional
  constructor parameter property \<open>token\<close> is a \<open>string option\<close> in the same way.
  A \<^verbatim>\<open>Record<string, _>\<close> is a map from keys to values; \<^verbatim>\<open>{}\<close> is the empty map.
\<close>

record ('d, 'n) APIRequestBuilder =
  "method" :: string
  baseUrl :: string
  resource :: string
  headers :: "string \<rightharpoonup> string"
  data :: "'d option"
  queryParams :: "string \<rightharpoonup> 'n param_value"
  responseType :: response_type
  token :: "string option"

text \<open>
  The object literal that \<open>execute\<close> passes to \<open>axios\<close> (lines 130 to 137): the request
  descriptor. Its keys are \<open>method\<close>, \<open>url\<close>, \<open>data\<close>, \<open>headers\<close>, \<open>params\<close> and
  \<open>responseType\<close>; those that would clash with a field of the builder carry the prefix
  \<open>req_\<close>.
\<close>

record ('d, 'n) AxiosRequestConfig =
  req_method :: string
  url :: string
  req_data :: "'d option"
  req_headers :: "string \<rightharpoonup> string"
  params :: "string \<rightharpoonup> 'n param_value"
  req_responseType :: response_type

text \<open>
  What a \<^verbatim>\<open>throw\<close> can carry: an \<^verbatim>\<open>Error\<close> object with its message, as
  \<open>validateRequestComponents\<close> builds one, or any other value (of a type \<open>'x\<close> left open),
  as the transport may raise.
\<close>

datatype 'x thrown = Error string | Other 'x

subsection \<open>The transport\<close>

text \<open>
  \<open>axios\<close> is external. It is a parameter of the model: a function from the request
  descriptor and the state of the outside world (of a type \<open>'w\<close> left open) to the
  settlement of the promise, a rejection (\<open>Inl\<close>) or a response (\<open>Inr\<close>), and the next
  state of the world. The model of a call records the descriptor in a log, so that the
  number of requests and what each one carried can be stated.
\<close>

type_synonym ('d, 'n, 'x, 'r, 'w) transport =
  "('d, 'n) AxiosRequestConfig \<Rightarrow> 'w \<Rightarrow> ('x thrown + 'r) \<times> 'w"

record ('d, 'n, 'w) net =
  world :: 'w
  calls :: "('d, 'n) AxiosRequestConfig list"

definition axios ::
  "('d, 'n, 'x, 'r, 'w) transport \<Rightarrow> ('d, 'n) AxiosRequestConfig \<Rightarrow> ('d, 'n, 'w) net
     \<Rightarrow> ('x thrown + 'r) \<times> ('d, 'n, 'w) net" where
  "axios t config n =
     (case t config (world n) of
        (settled, w) \<Rightarrow> (settled, \<lparr>world = w, calls = calls n @ [config]\<rparr>))"

subsection \<open>Construction and the chained setters\<close>

text \<open>
  The field initialisers, then the body of the constructor. \<^verbatim>\<open>if (this.token)\<close> is
  JavaScript truthiness: \<^verbatim>\<open>undefined\<close> and the empty string are false, every other
  string is true.
\<close>

definition constructor :: "string \<Rightarrow> string option \<Rightarrow> ('d, 'n) APIRequestBuilder" where
  "constructor url' token' =
     (let this = \<lparr>method = ''GET'', baseUrl = url', resource = [], headers = Map.empty,
                  data = None, queryParams = Map.empty, responseType = json,
                  token = token'\<rparr>
      in case token' of
           None \<Rightarrow> this
         | Some tk \<Rightarrow>
             if tk \<noteq> [] then this\<lparr>headers := (headers this)(''Authorization'' \<mapsto> ''Bearer '' @ tk)\<rparr>
             else this)"

text \<open>Each setter mutates \<^verbatim>\<open>this\<close> and returns it: the model returns the new state.\<close>

definition get :: "('d, 'n) APIRequestBuilder \<Rightarrow> ('d, 'n) APIRequestBuilder" where
  "get this = this\<lparr>method := ''GET''\<rparr>"

definition post :: "'d option \<Rightarrow> ('d, 'n) APIRequestBuilder \<Rightarrow> ('d, 'n) APIRequestBuilder" where
  "post d this = this\<lparr>method := ''POST'', data := d\<rparr>"

definition put :: "'d option \<Rightarrow> ('d, 'n) APIRequestBuilder \<Rightarrow> ('d, 'n) APIRequestBuilder" where
  "put d this = this\<lparr>method := ''PUT'', data := d\<rparr>"

definition delete :: "('d, 'n) APIRequestBuilder \<Rightarrow> ('d, 'n) APIRequestBuilder" where
  "delete this = this\<lparr>method := ''DELETE''\<rparr>"

definition patch :: "'d option \<Rightarrow> ('d, 'n) APIRequestBuilder \<Rightarrow> ('d, 'n) APIRequestBuilder" where
  "patch d this = this\<lparr>method := ''PATCH'', data := d\<rparr>"

definition setBaseUrl :: "string \<Rightarrow> ('d, 'n) APIRequestBuilder \<Rightarrow> ('d, 'n) APIRequestBuilder" where
  "setBaseUrl u this = this\<lparr>baseUrl := u\<rparr>"

definition setRelativePath ::
  "string \<Rightarrow> ('d, 'n) APIRequestBuilder \<Rightarrow> ('d, 'n) APIRequestBuilder" where
  "setRelativePath resourcePath this = this\<lparr>resource := resourcePath\<rparr>"

definition setQueryParameters ::
  "(string \<rightharpoonup> 'n param_value) \<Rightarrow> ('d, 'n) APIRequestBuilder \<Rightarrow> ('d, 'n) APIRequestBuilder" where
  "setQueryParameters ps this = this\<lparr>queryParams := ps\<rparr>"

definition setToken :: "string \<Rightarrow> ('d, 'n) APIRequestBuilder \<Rightarrow> ('d, 'n) APIRequestBuilder" where
  "setToken tk this = this\<lparr>headers := (headers this)(''Authorization'' \<mapsto> ''Bearer '' @ tk)\<rparr>"

definition setResponseType ::
  "response_type \<Rightarrow> ('d, 'n) APIRequestBuilder \<Rightarrow> ('d, 'n) APIRequestBuilder" where
  "setResponseType ty this = this\<lparr>responseType := ty\<rparr>"

subsection \<open>Execution\<close>

text \<open>
  \<open>validateRequestComponents\<close> throws when \<^verbatim>\<open>!this.baseUrl\<close>, that is, for the
  declared type \<^verbatim>\<open>string\<close>, when the base URL is the empty string.
\<close>

definition validateRequestComponents :: "('d, 'n) APIRequestBuilder \<Rightarrow> 'x thrown + unit" where
  "validateRequestComponents this =
     (if baseUrl this = [] then Inl (Error ''Base URL is missing. Use setBaseUrl() to set it.'')
      else Inr ())"

text \<open>The argument of the call of \<open>axios\<close>, read from the fields of \<^verbatim>\<open>this\<close>.\<close>

definition request_config :: "('d, 'n) APIRequestBuilder \<Rightarrow> ('d, 'n) AxiosRequestConfig" where
  "request_config this =
     \<lparr>req_method = method this,
      url = baseUrl this @ resource this,
      req_data = data this,
      req_headers = headers this,
      params = queryParams this,
      req_responseType = responseType this\<rparr>"

text \<open>
  One run of \<open>execute\<close>: how the promise it returns settles (\<open>Inl\<close> a rejection with the
  thrown value, \<open>Inr\<close> the value it resolves to), the builder afterwards, and the
  transport's log and world afterwards.
\<close>

record ('d, 'n, 'x, 'r, 'w) execution =
  outcome :: "'x thrown + 'r"
  this_after :: "('d, 'n) APIRequestBuilder"
  net_after :: "('d, 'n, 'w) net"

text \<open>
  \<open>execute\<close> validates first; a throw there ends the run. Otherwise it calls \<open>axios\<close>
  once; the \<^verbatim>\<open>catch\<close> clause rethrows what it caught.
\<close>

definition execute ::
  "('d, 'n, 'x, 'r, 'w) transport \<Rightarrow> ('d, 'n) APIRequestBuilder \<Rightarrow> ('d, 'n, 'w) net
     \<Rightarrow> ('d, 'n, 'x, 'r, 'w) execution" where
  "execute t this n =
     (case validateRequestComponents this of
        Inl e \<Rightarrow> \<lparr>outcome = Inl e, this_after = this, net_after = n\<rparr>
      | Inr _ \<Rightarrow>
          (case axios t (request_config this) n of
             (Inl error, n') \<Rightarrow> \<lparr>outcome = Inl error, this_after = this, net_after = n'\<rparr>
           | (Inr response, n') \<Rightarrow> \<lparr>outcome = Inr response, this_after = this, net_after = n'\<rparr>))"

subsection \<open>Transports and a network state for concrete runs\<close>

text \<open>
  Two transports that stand in for \<open>axios\<close> where a theorem is applied to a concrete
  run: one resolves every request with a given response, one rejects every request with
  a given value. Neither changes the world. \<open>fresh_net\<close> is a network on which no request
  has been made.
\<close>

definition resolving :: "'r \<Rightarrow> ('d, 'n, 'x, 'r, 'w) transport" where
  "resolving response config w = (Inr response, w)"

definition rejecting :: "'x thrown \<Rightarrow> ('d, 'n, 'x, 'r, 'w) transport" where
  "rejecting e config w = (Inl e, w)"

definition fresh_net :: "('d, 'n, unit) net" where
  "fresh_net = \<lparr>world = (), calls = []\<rparr>"

section \<open>Properties\<close>

subsection \<open>Facts about one run of \<open>execute\<close>\<close>

lemma execute_invalid:
  "baseUrl this = [] \<Longrightarrow>
   execute t this n =
     \<lparr>outcome = Inl (Error ''Base URL is missing. Use setBaseUrl() to set it.''),
      this_after = this, net_after = n\<rparr>"
  by (simp add: execute_def validateRequestComponents_def)

lemma execute_valid:
  "baseUrl this \<noteq> [] \<Longrightarrow>
   execute t this n =
     \<lparr>outcome = fst (t (request_config this) (world n)),
      this_after = this,
      net_after = \<lparr>world = snd (t (request_config this) (world n)),
                   calls = calls n @ [request_config this]\<rparr>\<rparr>"
  by (simp add: execute_def validateRequestComponents_def axios_def
      split: prod.splits sum.splits)

lemma constructor_fields:
  "method (constructor u tk) = ''GET''" "baseUrl (constructor u tk) = u"
  "resource (constructor u tk) = []" "data (constructor u tk) = None"
  "queryParams (constructor u tk) = Map.empty" "responseType (constructor u tk) = json"
  "token (constructor u tk) = tk"
  by (simp_all add: constructor_def Let_def split: option.splits)

lemma constructor_headers:
  "headers (constructor u tk) =
     (case tk of None \<Rightarrow> Map.empty
      | Some k \<Rightarrow> if k \<noteq> [] then [''Authorization'' \<mapsto> ''Bearer '' @ k] else Map.empty)"
  by (simp add: constructor_def Let_def split: option.splits)

lemma setToken_headers:
  "headers (setToken x this) = (headers this)(''Authorization'' \<mapsto> ''Bearer '' @ x)"
  by (simp add: setToken_def)

text \<open>
  C1. When the base URL is the empty string, \<open>execute\<close> fails with the error of the
  validation, whose message names the missing field and the setter \<open>setBaseUrl\<close>. The
  failure arises before the call of the transport: the log of requests and the world
  are as before, and the run is the same whatever the transport is.
\<close>

theorem execute_missing_configuration:
  assumes "baseUrl this = []"
  shows "outcome (execute t this n) = Inl (Error ''Base URL is missing. Use setBaseUrl() to set it.'')
       \<and> (\<exists>m. outcome (execute t this n) = Inl (Error m)
              \<and> sublist ''Base URL'' m \<and> sublist ''setBaseUrl'' m)
       \<and> calls (net_after (execute t this n)) = calls n
       \<and> net_after (execute t this n) = n
       \<and> execute t this n = execute t' this n"
proof -
  have run: "execute u this n =
      \<lparr>outcome = Inl (Error ''Base URL is missing. Use setBaseUrl() to set it.''),
       this_after = this, net_after = n\<rparr>" for u :: "('a, 'b, 'c, 'd, 'e) transport"
    using assms by (rule execute_invalid)
  have field: "sublist ''Base URL'' ''Base URL is missing. Use setBaseUrl() to set it.''"
    by code_simp
  have setter: "sublist ''setBaseUrl'' ''Base URL is missing. Use setBaseUrl() to set it.''"
    by code_simp
  from field setter show ?thesis
    by (simp add: run)
qed

theorem execute_missing_configuration_witness:
  "baseUrl (constructor [] (Some ''T'') :: (string, int) APIRequestBuilder) = []
   \<and> outcome (execute (resolving ''ok'' :: (string, int, unit, string, unit) transport)
        (constructor [] (Some ''T'')) fresh_net)
       = Inl (Error ''Base URL is missing. Use setBaseUrl() to set it.'')
   \<and> calls (net_after (execute (resolving ''ok'' :: (string, int, unit, string, unit) transport)
        (constructor [] (Some ''T'')) fresh_net)) = []"
proof -
  have empty: "baseUrl (constructor [] (Some ''T'') :: (string, int) APIRequestBuilder) = []"
    by (simp add: constructor_def)
  from execute_missing_configuration [OF empty,
      of "resolving ''ok'' :: (string, int, unit, string, unit) transport" fresh_net]
  show ?thesis
    using empty by (simp add: fresh_net_def)
qed

text \<open>
  C2. When the base URL is not empty, \<open>execute\<close> calls the transport exactly once (the
  log grows by one entry), with the descriptor read from the current fields: method,
  url, body, headers, query parameters and response type. When the transport resolves,
  \<open>execute\<close> resolves to the same response. In particular the builder of
  \<^verbatim>\<open>new RequestBuilder("https://api.example.com","T").asGet().setRelativePath("/users")
  .setQueryParameters({limit:10})\<close> hands over the method GET, the url
  \<^verbatim>\<open>https://api.example.com/users\<close>, the one header \<^verbatim>\<open>Authorization: Bearer T\<close>,
  the query parameters \<^verbatim>\<open>{limit:10}\<close>, the response type json and no body.
\<close>

theorem execute_hands_descriptor:
  assumes "baseUrl this \<noteq> []"
  shows "calls (net_after (execute t this n)) =
           calls n @ [\<lparr>req_method = method this, url = baseUrl this @ resource this,
                       req_data = data this, req_headers = headers this,
                       params = queryParams this, req_responseType = responseType this\<rparr>]
       \<and> length (calls (net_after (execute t this n))) = Suc (length (calls n))
       \<and> (\<forall>response w. t (request_config this) (world n) = (Inr response, w) \<longrightarrow>
             outcome (execute t this n) = Inr response
             \<and> world (net_after (execute t this n)) = w)
       \<and> request_config
            (setQueryParameters [''limit'' \<mapsto> NumV (10::int)]
              (setRelativePath ''/users''
                (get (constructor ''https://api.example.com'' (Some ''T''))))) =
           \<lparr>req_method = ''GET'', url = ''https://api.example.com/users'',
            req_data = None, req_headers = [''Authorization'' \<mapsto> ''Bearer T''],
            params = [''limit'' \<mapsto> NumV 10], req_responseType = json\<rparr>"
proof -
  have run: "execute t this n =
      \<lparr>outcome = fst (t (request_config this) (world n)),
       this_after = this,
       net_after = \<lparr>world = snd (t (request_config this) (world n)),
                    calls = calls n @ [request_config this]\<rparr>\<rparr>"
    using assms by (rule execute_valid)
  have log: "calls (net_after (execute t this n)) = calls n @ [request_config this]"
    by (simp add: run)
  have resolved: "outcome (execute t this n) = Inr response
      \<and> world (net_after (execute t this n)) = w"
    if "t (request_config this) (world n) = (Inr response, w)" for response w
    using that by (simp add: run)
  have example: "request_config
       (setQueryParameters [''limit'' \<mapsto> NumV (10::int)]
         (setRelativePath ''/users''
           (get (constructor ''https://api.example.com'' (Some ''T''))))) =
      \<lparr>req_method = ''GET'', url = ''https://api.example.com/users'',
       req_data = None, req_headers = [''Authorization'' \<mapsto> ''Bearer T''],
       params = [''limit'' \<mapsto> NumV 10], req_responseType = json\<rparr>"
    by (simp add: request_config_def setQueryParameters_def setRelativePath_def get_def
        constructor_def)
  from log resolved example show ?thesis
    by (simp add: request_config_def)
qed

theorem execute_hands_descriptor_witness:
  "baseUrl (setQueryParameters [''limit'' \<mapsto> NumV (10::int)]
      (setRelativePath ''/users''
        (get (constructor ''https://api.example.com'' (Some ''T'')
              :: (string, int) APIRequestBuilder)))) \<noteq> []
   \<and> calls (net_after
        (execute (resolving ''response'' :: (string, int, unit, string, unit) transport)
          (setQueryParameters [''limit'' \<mapsto> NumV 10]
            (setRelativePath ''/users''
              (get (constructor ''https://api.example.com'' (Some ''T'')))))
          fresh_net)) =
       [\<lparr>req_method = ''GET'', url = ''https://api.example.com/users'',
         req_data = None, req_headers = [''Authorization'' \<mapsto> ''Bearer T''],
         params = [''limit'' \<mapsto> NumV 10], req_responseType = json\<rparr>]
   \<and> outcome
        (execute (resolving ''response'' :: (string, int, unit, string, unit) transport)
          (setQueryParameters [''limit'' \<mapsto> NumV 10]
            (setRelativePath ''/users''
              (get (constructor ''https://api.example.com'' (Some ''T'')))))
          fresh_net) = Inr ''response''"
proof -
  let ?b = "setQueryParameters [''limit'' \<mapsto> NumV (10::int)]
      (setRelativePath ''/users''
        (get (constructor ''https://api.example.com'' (Some ''T'')
              :: (string, int) APIRequestBuilder)))"
  have fields: "method ?b = ''GET''" "baseUrl ?b = ''https://api.example.com''"
    "resource ?b = ''/users''" "data ?b = None"
    "headers ?b = [''Authorization'' \<mapsto> ''Bearer T'']"
    "queryParams ?b = [''limit'' \<mapsto> NumV 10]" "responseType ?b = json"
    by (simp_all add: setQueryParameters_def setRelativePath_def get_def constructor_def)
  have nonempty: "baseUrl ?b \<noteq> []"
    by (simp add: fields)
  have answer: "resolving ''response'' (request_config ?b)
        (world (fresh_net :: (string, int, unit) net))
      = (Inr ''response'' :: unit thrown + string, ())"
    by (simp add: resolving_def)
  from execute_hands_descriptor [OF nonempty,
      of "resolving ''response'' :: (string, int, unit, string, unit) transport" fresh_net]
    answer nonempty
  show ?thesis
    by (auto simp add: fields fresh_net_def)
qed

text \<open>
  C3. Every descriptor that a run of \<open>execute\<close> hands to the transport has as its url the
  base URL followed by the resource path, character for character, and so the base URL
  itself when the resource path is empty. With a base URL that is not empty the run hands
  over one such descriptor; this holds for whatever \<open>setBaseUrl\<close> and \<open>setRelativePath\<close>
  last stored.
\<close>

theorem execute_url_concatenation:
  "(\<forall>c \<in> set (drop (length (calls n)) (calls (net_after (execute t this n)))).
       url c = baseUrl this @ resource this \<and> (resource this = [] \<longrightarrow> url c = baseUrl this))
   \<and> (baseUrl this \<noteq> [] \<longrightarrow>
         map url (calls (net_after (execute t this n))) =
           map url (calls n) @ [baseUrl this @ resource this])
   \<and> (b \<noteq> [] \<longrightarrow>
         url (last (calls (net_after
           (execute t (setRelativePath p (setBaseUrl b this)) n)))) = b @ p
       \<and> url (last (calls (net_after
           (execute t (setRelativePath [] (setBaseUrl b this)) n)))) = b)"
proof -
  have handed: "drop (length (calls n)) (calls (net_after (execute t this n))) =
      (if baseUrl this = [] then [] else [request_config this])"
    by (simp add: execute_invalid execute_valid)
  have here: "calls (net_after (execute t this n)) = calls n @ [request_config this]"
    if "baseUrl this \<noteq> []"
    using that by (simp add: execute_valid)
  have there: "calls (net_after (execute t (setRelativePath q (setBaseUrl b this)) n)) =
      calls n @ [request_config (setRelativePath q (setBaseUrl b this))]"
    if "b \<noteq> []" for q
    using that by (simp add: execute_valid setRelativePath_def setBaseUrl_def)
  have joined: "url (request_config (setRelativePath q (setBaseUrl b this))) = b @ q" for q
    by (simp add: request_config_def setRelativePath_def setBaseUrl_def)
  have own: "url (request_config this) = baseUrl this @ resource this"
    by (simp add: request_config_def)
  show ?thesis
    by (simp add: handed here there joined own)
qed

theorem execute_url_concatenation_witness:
  "request_config (setRelativePath ''/users''
        (constructor ''https://api.example.com'' None :: (string, int) APIRequestBuilder))
     \<in> set (drop (length (calls (fresh_net :: (string, int, unit) net))) (calls (net_after
        (execute (resolving ''ok'' :: (string, int, unit, string, unit) transport)
          (setRelativePath ''/users'' (constructor ''https://api.example.com'' None))
          fresh_net))))
   \<and> url (request_config (setRelativePath ''/users''
        (constructor ''https://api.example.com'' None :: (string, int) APIRequestBuilder)))
       = ''https://api.example.com/users''
   \<and> baseUrl (setRelativePath ''/users''
        (constructor ''https://api.example.com'' None :: (string, int) APIRequestBuilder)) \<noteq> []
   \<and> ''http://localhost'' \<noteq> []
   \<and> map url (calls (net_after
        (execute (resolving ''ok'' :: (string, int, unit, string, unit) transport)
          (setRelativePath ''/users'' (constructor ''https://api.example.com'' None))
          fresh_net))) = [''https://api.example.com/users'']
   \<and> url (last (calls (net_after
        (execute (resolving ''ok'' :: (string, int, unit, string, unit) transport)
          (setRelativePath ''v1''
            (setBaseUrl ''http://localhost''
              (setRelativePath ''/users'' (constructor ''https://api.example.com'' None))))
          fresh_net)))) = ''http://localhostv1''
   \<and> url (last (calls (net_after
        (execute (resolving ''ok'' :: (string, int, unit, string, unit) transport)
          (setRelativePath []
            (setBaseUrl ''http://localhost''
              (setRelativePath ''/users'' (constructor ''https://api.example.com'' None))))
          fresh_net)))) = ''http://localhost''"
proof -
  let ?b = "setRelativePath ''/users''
      (constructor ''https://api.example.com'' None :: (string, int) APIRequestBuilder)"
  let ?t = "resolving ''ok'' :: (string, int, unit, string, unit) transport"
  have fields: "baseUrl ?b = ''https://api.example.com''" "resource ?b = ''/users''"
    by (simp_all add: setRelativePath_def constructor_fields)
  have nonempty: "baseUrl ?b \<noteq> []"
    by (simp add: fields)
  have other: "''http://localhost'' \<noteq> []"
    by simp
  have member: "request_config ?b
      \<in> set (drop (length (calls (fresh_net :: (string, int, unit) net))) (calls (net_after (execute ?t ?b fresh_net))))"
    using nonempty by (simp add: execute_valid fresh_net_def)
  note facts = execute_url_concatenation [of fresh_net ?t ?b "''http://localhost''" "''v1''"]
  have "url (request_config ?b) = baseUrl ?b @ resource ?b"
    by (rule facts [THEN conjunct1, THEN bspec, OF member, THEN conjunct1])
  then have joined: "url (request_config ?b) = ''https://api.example.com/users''"
    by (simp add: fields)
  have "map url (calls (net_after (execute ?t ?b fresh_net))) =
      map url (calls (fresh_net :: (string, int, unit) net)) @ [baseUrl ?b @ resource ?b]"
    by (rule facts [THEN conjunct2, THEN conjunct1, THEN mp, OF nonempty])
  then have log: "map url (calls (net_after (execute ?t ?b fresh_net))) =
      [''https://api.example.com/users'']"
    by (simp add: fields fresh_net_def)
  note moved = facts [THEN conjunct2, THEN conjunct2, THEN mp, OF other]
  from moved have moved': "url (last (calls (net_after
        (execute ?t (setRelativePath ''v1'' (setBaseUrl ''http://localhost'' ?b)) fresh_net))))
      = ''http://localhostv1''"
    "url (last (calls (net_after
        (execute ?t (setRelativePath [] (setBaseUrl ''http://localhost'' ?b)) fresh_net))))
      = ''http://localhost''"
    by simp_all
  show ?thesis
    by (intro conjI member joined nonempty other log moved')
qed

text \<open>
  C4 does not hold as it is written: no branch of \<open>execute\<close> looks at the method, and
  \<open>get\<close> leaves the \<open>data\<close> field alone. After \<open>post\<close> with a body and then \<open>get\<close>, the
  descriptor handed to the transport has the method GET and still carries the body.
\<close>

theorem execute_body_counterexample:
  "req_method (last (calls (net_after
      (execute (resolving ''ok'' :: (string, int, unit, string, unit) transport)
        (get (post (Some ''payload'') (constructor ''https://api.example.com'' None)))
        fresh_net)))) = ''GET''
   \<and> req_data (last (calls (net_after
      (execute (resolving ''ok'' :: (string, int, unit, string, unit) transport)
        (get (post (Some ''payload'') (constructor ''https://api.example.com'' None)))
        fresh_net)))) = Some ''payload''
   \<and> req_data (last (calls (net_after
      (execute (resolving ''ok'' :: (string, int, unit, string, unit) transport)
        (get (post (Some ''payload'') (constructor ''https://api.example.com'' None)))
        fresh_net)))) \<noteq> None"
  by (simp add: execute_def validateRequestComponents_def axios_def request_config_def
      resolving_def fresh_net_def get_def post_def constructor_def)

text \<open>
  C4, as the code has it. The descriptor carries the builder's \<open>data\<close> field whatever
  the method is. For a GET or DELETE the body is absent when the field is absent, as on
  a newly constructed builder; a body stored by an earlier \<open>post\<close>, \<open>put\<close> or \<open>patch\<close>
  stays in the field after \<open>get\<close> or \<open>delete\<close> and is handed to the transport.
\<close>

theorem execute_body_verbatim:
  assumes "baseUrl this \<noteq> []" and "u \<noteq> []"
  shows "req_data (last (calls (net_after (execute t this n)))) = data this
       \<and> req_data (last (calls (net_after (execute t (get (post d this)) n)))) = d
       \<and> req_data (last (calls (net_after (execute t (get (put d this)) n)))) = d
       \<and> req_data (last (calls (net_after (execute t (get (patch d this)) n)))) = d
       \<and> req_data (last (calls (net_after (execute t (delete (post d this)) n)))) = d
       \<and> req_data (last (calls (net_after (execute t (delete (put d this)) n)))) = d
       \<and> req_data (last (calls (net_after (execute t (delete (patch d this)) n)))) = d
       \<and> req_data (last (calls (net_after (execute t (get (constructor u tk)) n)))) = None
       \<and> req_data (last (calls (net_after (execute t (delete (constructor u tk)) n)))) = None"
proof -
  have handed: "req_data (last (calls (net_after (execute t b n)))) = data b"
    if "baseUrl b \<noteq> []" for b
    using that by (simp add: execute_valid request_config_def)
  have kept: "baseUrl (get (post d this)) \<noteq> []" "baseUrl (get (put d this)) \<noteq> []"
    "baseUrl (get (patch d this)) \<noteq> []" "baseUrl (delete (post d this)) \<noteq> []"
    "baseUrl (delete (put d this)) \<noteq> []" "baseUrl (delete (patch d this)) \<noteq> []"
    using assms(1) by (simp_all add: get_def delete_def post_def put_def patch_def)
  have new: "baseUrl (get (constructor u tk :: ('a, 'b) APIRequestBuilder)) \<noteq> []"
    "baseUrl (delete (constructor u tk :: ('a, 'b) APIRequestBuilder)) \<noteq> []"
    using assms(2) by (simp_all add: get_def delete_def constructor_fields)
  have stored: "data (get (post d this)) = d" "data (get (put d this)) = d"
    "data (get (patch d this)) = d" "data (delete (post d this)) = d"
    "data (delete (put d this)) = d" "data (delete (patch d this)) = d"
    by (simp_all add: get_def delete_def post_def put_def patch_def)
  have absent: "data (get (constructor u tk :: ('a, 'b) APIRequestBuilder)) = None"
    "data (delete (constructor u tk :: ('a, 'b) APIRequestBuilder)) = None"
    by (simp_all add: get_def delete_def constructor_fields)
  show ?thesis
    using assms(1) by (simp add: handed kept new stored absent)
qed

theorem execute_body_verbatim_witness:
  "baseUrl (delete (constructor ''https://api.example.com'' None
      :: (string, int) APIRequestBuilder)) \<noteq> []
   \<and> ''http://localhost'' \<noteq> []
   \<and> req_data (last (calls (net_after
        (execute (resolving ''ok'' :: (string, int, unit, string, unit) transport)
          (delete (constructor ''https://api.example.com'' None)) fresh_net)))) = None
   \<and> req_data (last (calls (net_after
        (execute (resolving ''ok'' :: (string, int, unit, string, unit) transport)
          (get (patch (Some ''payload'')
            (delete (constructor ''https://api.example.com'' None)))) fresh_net))))
       = Some ''payload''"
proof -
  let ?b = "delete (constructor ''https://api.example.com'' None
      :: (string, int) APIRequestBuilder)"
  have fields: "baseUrl ?b = ''https://api.example.com''" "data ?b = None"
    by (simp_all add: delete_def constructor_def)
  have nonempty: "baseUrl ?b \<noteq> []"
    by (simp add: fields)
  have other: "''http://localhost'' \<noteq> []"
    by simp
  from execute_body_verbatim [OF nonempty other,
      of "resolving ''ok'' :: (string, int, unit, string, unit) transport" fresh_net
        "Some ''payload''"]
    nonempty
  show ?thesis
    by (auto simp add: fields)
qed

text \<open>
  C5. A second call of a setter replaces what the first stored: after
  \<open>setQueryParameters p1\<close> and \<open>setQueryParameters p2\<close> the query parameters are
  \<open>p2\<close>, with nothing of \<open>p1\<close> left, and the builder is the one that the second call
  alone gives. The same holds for \<open>setBaseUrl\<close>, \<open>setRelativePath\<close>, \<open>setToken\<close>,
  \<open>setResponseType\<close> and the method calls with a body.
\<close>

theorem setters_last_call_wins:
  "queryParams (setQueryParameters p2 (setQueryParameters p1 this)) = p2
   \<and> setQueryParameters p2 (setQueryParameters p1 this) = setQueryParameters p2 this
   \<and> baseUrl (setBaseUrl u2 (setBaseUrl u1 this)) = u2
   \<and> setBaseUrl u2 (setBaseUrl u1 this) = setBaseUrl u2 this
   \<and> resource (setRelativePath r2 (setRelativePath r1 this)) = r2
   \<and> setRelativePath r2 (setRelativePath r1 this) = setRelativePath r2 this
   \<and> headers (setToken k2 (setToken k1 this)) ''Authorization'' = Some (''Bearer '' @ k2)
   \<and> setToken k2 (setToken k1 this) = setToken k2 this
   \<and> responseType (setResponseType y2 (setResponseType y1 this)) = y2
   \<and> setResponseType y2 (setResponseType y1 this) = setResponseType y2 this
   \<and> data (post d2 (post d1 this)) = d2 \<and> post d2 (post d1 this) = post d2 this
   \<and> data (put d2 (put d1 this)) = d2 \<and> put d2 (put d1 this) = put d2 this
   \<and> data (patch d2 (patch d1 this)) = d2 \<and> patch d2 (patch d1 this) = patch d2 this
   \<and> get (get this) = get this \<and> delete (delete this) = delete this"
  by (simp add: setQueryParameters_def setBaseUrl_def setRelativePath_def setToken_def
      setResponseType_def post_def put_def patch_def get_def delete_def)

text \<open>
  C6. A builder constructed with a token that is not empty has exactly one header,
  \<open>Authorization\<close>, with the value \<open>Bearer\<close>, a space and the token. \<open>setToken\<close> on
  any builder stores \<open>Bearer\<close>, a space and its argument under \<open>Authorization\<close> and
  leaves the entry of every other header name as it was.
\<close>

theorem bearer_token_header:
  assumes "tk \<noteq> []"
  shows "headers (constructor u (Some tk)) = [''Authorization'' \<mapsto> ''Bearer '' @ tk]
       \<and> dom (headers (constructor u (Some tk))) = {''Authorization''}
       \<and> headers (setToken x this) ''Authorization'' = Some (''Bearer '' @ x)
       \<and> (\<forall>k. k \<noteq> ''Authorization'' \<longrightarrow> headers (setToken x this) k = headers this k)
       \<and> headers (setToken x (constructor u (Some tk))) = [''Authorization'' \<mapsto> ''Bearer '' @ x]"
  using assms by (simp add: constructor_headers setToken_headers)

theorem bearer_token_header_witness:
  "''T'' \<noteq> []
   \<and> headers (constructor ''https://api.example.com'' (Some ''T'')
        :: (string, int) APIRequestBuilder) = [''Authorization'' \<mapsto> ''Bearer T'']
   \<and> headers (setToken ''x''
        ((constructor ''https://api.example.com'' (Some ''T'') :: (string, int) APIRequestBuilder)
           \<lparr>headers := [''Authorization'' \<mapsto> ''Bearer T'', ''Accept'' \<mapsto> ''text/plain'']\<rparr>))
        ''Authorization'' = Some ''Bearer x''
   \<and> ''Accept'' \<noteq> ''Authorization''
   \<and> headers (setToken ''x''
        ((constructor ''https://api.example.com'' (Some ''T'') :: (string, int) APIRequestBuilder)
           \<lparr>headers := [''Authorization'' \<mapsto> ''Bearer T'', ''Accept'' \<mapsto> ''text/plain'']\<rparr>))
        ''Accept'' = Some ''text/plain''"
proof -
  let ?b = "(constructor ''https://api.example.com'' (Some ''T'') :: (string, int) APIRequestBuilder)
      \<lparr>headers := [''Authorization'' \<mapsto> ''Bearer T'', ''Accept'' \<mapsto> ''text/plain'']\<rparr>"
  have token: "''T'' \<noteq> []"
    by simp
  have name: "''Accept'' \<noteq> ''Authorization''"
    by simp
  note facts = bearer_token_header [OF token,
      where u = "''https://api.example.com''" and x = "''x''" and this = ?b]
  have others:
    "\<forall>k. k \<noteq> ''Authorization'' \<longrightarrow> headers (setToken ''x'' ?b) k = headers ?b k"
    by (rule facts [THEN conjunct2, THEN conjunct2, THEN conjunct2, THEN conjunct1])
  have "headers (setToken ''x'' ?b) ''Accept'' = headers ?b ''Accept''"
    by (rule others [rule_format, OF name])
  then have kept: "headers (setToken ''x'' ?b) ''Accept'' = Some ''text/plain''"
    by simp
  have "headers (constructor ''https://api.example.com'' (Some ''T'')
      :: (string, int) APIRequestBuilder) = [''Authorization'' \<mapsto> ''Bearer '' @ ''T'']"
    by (rule facts [THEN conjunct1])
  then have built: "headers (constructor ''https://api.example.com'' (Some ''T'')
      :: (string, int) APIRequestBuilder) = [''Authorization'' \<mapsto> ''Bearer T'']"
    by simp
  have "headers (setToken ''x'' ?b) ''Authorization'' = Some (''Bearer '' @ ''x'')"
    by (rule facts [THEN conjunct2, THEN conjunct2, THEN conjunct1])
  then have written: "headers (setToken ''x'' ?b) ''Authorization'' = Some ''Bearer x''"
    by simp
  show ?thesis
    by (intro conjI token name built written kept)
qed

text \<open>
  C7. After \<open>post\<close> with a body and then \<open>get\<close> the method is GET and the body is still
  the one given to \<open>post\<close>. Each call writes its own fields only: putting the old value
  back into the field (for \<open>post\<close>, \<open>put\<close> and \<open>patch\<close>: the two fields) that a call
  writes gives the builder as it was before the call. For \<open>get\<close> the other seven fields
  are also listed one by one.
\<close>

theorem setters_touch_own_fields:
  "method (get (post d this)) = ''GET'' \<and> data (get (post d this)) = d
   \<and> method (delete (post d this)) = ''DELETE'' \<and> data (delete (post d this)) = d
   \<and> baseUrl (get this) = baseUrl this \<and> resource (get this) = resource this
   \<and> headers (get this) = headers this \<and> data (get this) = data this
   \<and> queryParams (get this) = queryParams this \<and> responseType (get this) = responseType this
   \<and> token (get this) = token this
   \<and> (get this)\<lparr>method := method this\<rparr> = this
   \<and> (delete this)\<lparr>method := method this\<rparr> = this
   \<and> (setBaseUrl u this)\<lparr>baseUrl := baseUrl this\<rparr> = this
   \<and> (setRelativePath p this)\<lparr>resource := resource this\<rparr> = this
   \<and> (setResponseType y this)\<lparr>responseType := responseType this\<rparr> = this
   \<and> (setQueryParameters q this)\<lparr>queryParams := queryParams this\<rparr> = this
   \<and> (setToken k this)\<lparr>headers := headers this\<rparr> = this
   \<and> (post d this)\<lparr>method := method this, data := data this\<rparr> = this
   \<and> (put d this)\<lparr>method := method this, data := data this\<rparr> = this
   \<and> (patch d this)\<lparr>method := method this, data := data this\<rparr> = this"
  by (simp add: get_def delete_def post_def put_def patch_def setBaseUrl_def
      setRelativePath_def setResponseType_def setQueryParameters_def setToken_def)

text \<open>
  C8. When the base URL is not empty and the transport rejects the request with a value
  \<open>e\<close>, \<open>execute\<close> rejects with \<open>e\<close> itself. The log has grown by one request, the
  one of this run: there is no second attempt.
\<close>

theorem execute_propagates_transport_error:
  assumes "baseUrl this \<noteq> []" and "t (request_config this) (world n) = (Inl e, w)"
  shows "outcome (execute t this n) = Inl e
       \<and> calls (net_after (execute t this n)) = calls n @ [request_config this]
       \<and> length (calls (net_after (execute t this n))) = length (calls n) + 1
       \<and> world (net_after (execute t this n)) = w"
  using assms by (simp add: execute_valid)

theorem execute_propagates_transport_error_witness:
  "baseUrl (constructor ''https://api.example.com'' None :: (string, int) APIRequestBuilder) \<noteq> []
   \<and> (rejecting (Other ''ECONNREFUSED'') :: (string, int, string, string, unit) transport)
        (request_config (constructor ''https://api.example.com'' None))
        (world (fresh_net :: (string, int, unit) net))
       = (Inl (Other ''ECONNREFUSED''), ())
   \<and> outcome (execute (rejecting (Other ''ECONNREFUSED'')
          :: (string, int, string, string, unit) transport)
        (constructor ''https://api.example.com'' None) fresh_net) = Inl (Other ''ECONNREFUSED'')
   \<and> length (calls (net_after (execute (rejecting (Other ''ECONNREFUSED'')
          :: (string, int, string, string, unit) transport)
        (constructor ''https://api.example.com'' None) fresh_net))) = 1"
proof -
  let ?b = "constructor ''https://api.example.com'' None :: (string, int) APIRequestBuilder"
  let ?t = "rejecting (Other ''ECONNREFUSED'') :: (string, int, string, string, unit) transport"
  have nonempty: "baseUrl ?b \<noteq> []"
    by (simp add: constructor_fields)
  have rejected: "?t (request_config ?b) (world (fresh_net :: (string, int, unit) net))
      = (Inl (Other ''ECONNREFUSED''), ())"
    by (simp add: rejecting_def)
  from execute_propagates_transport_error [of ?b ?t fresh_net "Other ''ECONNREFUSED''" "()", OF nonempty rejected]
    nonempty rejected
  show ?thesis
    by (auto simp add: fresh_net_def)
qed

text \<open>
  C9. \<open>execute\<close> writes no field: the builder after a run is the builder before it,
  whether the validation failed, the transport rejected or the transport resolved. A
  second run on the builder, as it is or after further setter calls, is therefore the run
  on the original builder with the same calls. The transport is taken to read the
  descriptor it is given and not to write into the objects it holds.
\<close>

theorem execute_keeps_configuration:
  "this_after (execute t this n) = this
   \<and> method (this_after (execute t this n)) = method this
   \<and> baseUrl (this_after (execute t this n)) = baseUrl this
   \<and> resource (this_after (execute t this n)) = resource this
   \<and> headers (this_after (execute t this n)) = headers this
   \<and> data (this_after (execute t this n)) = data this
   \<and> queryParams (this_after (execute t this n)) = queryParams this
   \<and> responseType (this_after (execute t this n)) = responseType this
   \<and> token (this_after (execute t this n)) = token this
   \<and> execute t' (this_after (execute t this n)) n' = execute t' this n'
   \<and> execute t' (f (this_after (execute t this n))) n' = execute t' (f this) n'"
proof -
  have "this_after (execute t this n) = this"
  proof (cases "baseUrl this = []")
    case True
    then show ?thesis by (simp add: execute_invalid)
  next
    case False
    then show ?thesis by (simp add: execute_valid)
  qed
  then show ?thesis by simp
qed

text \<open>
  C10. The constructor tests the token for truthiness, so the empty string, like an
  absent token, leaves the headers empty. \<open>setToken\<close> has no such test: with the empty
  string it stores the value \<open>Bearer\<close> followed by a space under \<open>Authorization\<close>.
\<close>

theorem empty_token_constructor_and_setToken:
  "headers (constructor u (Some [])) = Map.empty
   \<and> headers (constructor u (Some [])) ''Authorization'' = None
   \<and> headers (constructor u None) = Map.empty
   \<and> headers (setToken [] this) ''Authorization'' = Some ''Bearer ''
   \<and> headers (setToken [] (constructor u (Some []))) = [''Authorization'' \<mapsto> ''Bearer '']
   \<and> headers (setToken [] (constructor u (Some []))) \<noteq> headers (constructor u (Some []))"
  by (simp add: constructor_def setToken_def Let_def)

end
